theory Spec2Isabelle
  imports Complex_Main "HOL-Library.AList"
begin

section \<open>LiveChannel: the reconnecting socket hook (src/hooks/useWebSocket.ts)\<close>

text \<open>
  The hook keeps two pieces of React state (\<open>connectionStatus\<close>, \<open>lastMessage\<close>) and three
  refs (\<open>ws\<close>, \<open>reconnectTimeoutRef\<close>, \<open>reconnectAttempts\<close>). The refs point into the host
  environment: sockets created by \<open>new WebSocket\<close> and timers created by \<open>setTimeout\<close>.
  Both are kept in an explicit store, a list indexed by the handle, so that a socket whose
  handle has been overwritten is still there and can still deliver events to the handlers
  that were attached to it.

  A message is represented by its JSON text: \<open>sendMessage\<close> passes
  \<open>JSON.stringify(message)\<close> to the socket, and an arriving \<open>MessageEvent\<close> is represented
  by its \<open>data\<close>. \<open>console.log\<close>, \<open>console.warn\<close> and \<open>console.error\<close> are not modelled.
\<close>

datatype ConnectionStatus = Connecting | Connected | Disconnected | Error

datatype ReadyState = CONNECTING | OPEN | CLOSING | CLOSED

record WebSocket =
  readyState :: ReadyState
  sent :: "string list"
  closeCalls :: "nat option list"

record Timeout =
  delay :: nat
  pending :: bool

record LiveChannel =
  connectionStatus :: ConnectionStatus
  lastMessage :: "string option"
  ws :: "nat option"
  reconnectTimeoutRef :: "nat option"
  reconnectAttempts :: nat
  sockets :: "WebSocket list"
  timeouts :: "Timeout list"

definition maxReconnectAttempts :: nat where
  "maxReconnectAttempts = 5"

text \<open>The state of the hook before its effect has run (lines 11 to 15).\<close>

definition initial :: LiveChannel where
  "initial = \<lparr>connectionStatus = Disconnected, lastMessage = None, ws = None,
     reconnectTimeoutRef = None, reconnectAttempts = 0, sockets = [], timeouts = []\<rparr>"

subsection \<open>The host environment's primitives\<close>

text \<open>\<open>ws.current?.readyState === WebSocket.OPEN\<close>: false when there is no socket.\<close>

definition ws_is_open :: "LiveChannel \<Rightarrow> bool" where
  "ws_is_open s =
     (case ws s of
        None \<Rightarrow> False
      | Some w \<Rightarrow> w < length (sockets s) \<and> readyState (sockets s ! w) = OPEN)"

definition new_WebSocket :: WebSocket where
  "new_WebSocket = \<lparr>readyState = CONNECTING, sent = [], closeCalls = []\<rparr>"

definition set_readyState :: "nat \<Rightarrow> ReadyState \<Rightarrow> LiveChannel \<Rightarrow> LiveChannel" where
  "set_readyState w r s =
     (if w < length (sockets s)
      then s\<lparr>sockets := (sockets s)[w := (sockets s ! w)\<lparr>readyState := r\<rparr>]\<rparr>
      else s)"

text \<open>\<open>socket.send(frame)\<close> on an open socket hands the frame to the transport.\<close>

definition socket_send :: "nat \<Rightarrow> string \<Rightarrow> LiveChannel \<Rightarrow> LiveChannel" where
  "socket_send w frame s =
     (if w < length (sockets s)
      then s\<lparr>sockets := (sockets s)[w := (sockets s ! w)\<lparr>sent := sent (sockets s ! w) @ [frame]\<rparr>]\<rparr>
      else s)"

text \<open>
  \<open>socket.close(code)\<close>: the call is recorded with its code argument (\<open>None\<close> when the
  call passes none); a socket that is connecting or open starts closing, a socket that is
  closing or closed stays as it is.
\<close>

definition socket_close :: "nat \<Rightarrow> nat option \<Rightarrow> LiveChannel \<Rightarrow> LiveChannel" where
  "socket_close w code s =
     (if w < length (sockets s)
      then s\<lparr>sockets := (sockets s)[w := (sockets s ! w)
             \<lparr>readyState := (if readyState (sockets s ! w) = CONNECTING
                                 \<or> readyState (sockets s ! w) = OPEN
                               then CLOSING else readyState (sockets s ! w)),
              closeCalls := closeCalls (sockets s ! w) @ [code]\<rparr>]\<rparr>
      else s)"

definition clearTimeout :: "nat \<Rightarrow> LiveChannel \<Rightarrow> LiveChannel" where
  "clearTimeout t s =
     (if t < length (timeouts s)
      then s\<lparr>timeouts := (timeouts s)[t := (timeouts s ! t)\<lparr>pending := False\<rparr>]\<rparr>
      else s)"

subsection \<open>The hook's functions and handlers\<close>

text \<open>
  \<open>connect\<close> (lines 20 to 56). The four handlers it assigns to the new socket only read
  and write the refs and the state of the hook, so they are the same functions for every
  socket; they are defined below and run by \<open>fire\<close>.
\<close>

definition connect :: "LiveChannel \<Rightarrow> LiveChannel" where
  "connect s =
     (if ws_is_open s then s
      else s\<lparr>connectionStatus := Connecting,
             ws := Some (length (sockets s)),
             sockets := sockets s @ [new_WebSocket]\<rparr>)"

definition onopen :: "LiveChannel \<Rightarrow> LiveChannel" where
  "onopen s = s\<lparr>connectionStatus := Connected, reconnectAttempts := 0\<rparr>"

definition backoff :: "nat \<Rightarrow> nat" where
  "backoff n = min (1000 * 2 ^ n) 30000"

definition onclose :: "nat \<Rightarrow> LiveChannel \<Rightarrow> LiveChannel" where
  "onclose code s =
     (let s1 = s\<lparr>connectionStatus := Disconnected\<rparr> in
      if code \<noteq> 1000 \<and> reconnectAttempts s1 < maxReconnectAttempts
      then s1\<lparr>reconnectTimeoutRef := Some (length (timeouts s1)),
               timeouts := timeouts s1 @ [\<lparr>delay = backoff (reconnectAttempts s1), pending = True\<rparr>]\<rparr>
      else s1)"

text \<open>The function handed to \<open>setTimeout\<close> (lines 41 to 44).\<close>

definition timeout_callback :: "LiveChannel \<Rightarrow> LiveChannel" where
  "timeout_callback s = connect (s\<lparr>reconnectAttempts := reconnectAttempts s + 1\<rparr>)"

definition onerror :: "LiveChannel \<Rightarrow> LiveChannel" where
  "onerror s = s\<lparr>connectionStatus := Error\<rparr>"

definition onmessage :: "string \<Rightarrow> LiveChannel \<Rightarrow> LiveChannel" where
  "onmessage event s = s\<lparr>lastMessage := Some event\<rparr>"

definition sendMessage :: "string \<Rightarrow> LiveChannel \<Rightarrow> LiveChannel" where
  "sendMessage message s =
     (case ws s of
        None \<Rightarrow> s
      | Some w \<Rightarrow> if ws_is_open s then socket_send w message s else s)"

definition reconnect :: "LiveChannel \<Rightarrow> LiveChannel" where
  "reconnect s =
     (let s1 = (case reconnectTimeoutRef s of None \<Rightarrow> s | Some t \<Rightarrow> clearTimeout t s);
          s2 = s1\<lparr>reconnectAttempts := 0\<rparr>;
          s3 = (case ws s2 of None \<Rightarrow> s2 | Some w \<Rightarrow> socket_close w None s2)
      in connect s3)"

text \<open>The cleanup returned by the effect (lines 80 to 87): what runs on disposal.\<close>

definition cleanup :: "LiveChannel \<Rightarrow> LiveChannel" where
  "cleanup s =
     (let s1 = (case reconnectTimeoutRef s of None \<Rightarrow> s | Some t \<Rightarrow> clearTimeout t s)
      in case ws s1 of None \<Rightarrow> s1 | Some w \<Rightarrow> socket_close w (Some 1000) s1)"

subsection \<open>Events delivered by the environment\<close>

text \<open>
  The environment delivers an event by running the handler attached to the socket, or the
  callback of the timer. A socket opens at most once, while it is connecting; it reports
  its closure once, with a code the transport chooses; a timer fires at most once, and not
  after it has been cleared.
\<close>

datatype event =
    EvOpen nat
  | EvClose nat nat
  | EvError nat
  | EvMessage nat string
  | EvTimeout nat

fun enabled :: "LiveChannel \<Rightarrow> event \<Rightarrow> bool" where
  "enabled s (EvOpen w) = (w < length (sockets s) \<and> readyState (sockets s ! w) = CONNECTING)"
| "enabled s (EvClose w code) = (w < length (sockets s) \<and> readyState (sockets s ! w) \<noteq> CLOSED)"
| "enabled s (EvError w) = (w < length (sockets s) \<and> readyState (sockets s ! w) \<noteq> CLOSED)"
| "enabled s (EvMessage w m) =
     (w < length (sockets s) \<and>
      (readyState (sockets s ! w) = OPEN \<or> readyState (sockets s ! w) = CLOSING))"
| "enabled s (EvTimeout t) = (t < length (timeouts s) \<and> pending (timeouts s ! t))"

fun fire :: "event \<Rightarrow> LiveChannel \<Rightarrow> LiveChannel" where
  "fire (EvOpen w) s = onopen (set_readyState w OPEN s)"
| "fire (EvClose w code) s = onclose code (set_readyState w CLOSED s)"
| "fire (EvError w) s = onerror s"
| "fire (EvMessage w m) s = onmessage m s"
| "fire (EvTimeout t) s = timeout_callback (clearTimeout t s)"

subsection \<open>Calls and events in sequence\<close>

text \<open>
  The application calls the functions of the hook (the effect calls \<open>connect\<close> when the
  component mounts, and its cleanup when the component is disposed), and the environment
  delivers events, one at a time. An event can only be delivered when it is enabled.
\<close>

datatype action =
    CallConnect
  | CallSendMessage string
  | CallReconnect
  | CallCleanup
  | Deliver event

fun step :: "action \<Rightarrow> LiveChannel \<Rightarrow> LiveChannel option" where
  "step CallConnect s = Some (connect s)"
| "step (CallSendMessage message) s = Some (sendMessage message s)"
| "step CallReconnect s = Some (reconnect s)"
| "step CallCleanup s = Some (cleanup s)"
| "step (Deliver e) s = (if enabled s e then Some (fire e s) else None)"

fun steps :: "action list \<Rightarrow> LiveChannel \<Rightarrow> LiveChannel option" where
  "steps [] s = Some s"
| "steps (a # as) s = (case step a s of None \<Rightarrow> None | Some s' \<Rightarrow> steps as s')"

subsection \<open>Traces and states the properties speak about\<close>

text \<open>The delivery of a message.\<close>

fun delivers_message :: "action \<Rightarrow> bool" where
  "delivers_message (Deliver (EvMessage w m)) = True"
| "delivers_message a = False"

text \<open>
  States reached from the initial state. The first connection is established; a message
  has arrived on it; the first connection attempt has failed and its close handler has
  scheduled the first retry.
\<close>

definition established :: LiveChannel where
  "established = fire (EvOpen 0) (connect initial)"

definition after_first_message :: LiveChannel where
  "after_first_message = fire (EvMessage 0 ''m'') established"

definition backing_off :: LiveChannel where
  "backing_off = fire (EvClose 0 1006) (connect initial)"

text \<open>The hook is disposed while that first retry is pending.\<close>

definition closed_then_disposed :: LiveChannel where
  "closed_then_disposed = cleanup backing_off"

text \<open>
  Five retries in a row fail: each socket reports an abnormal closure before it opens, and
  each timer fires. The sixth socket is then connecting.
\<close>

definition five_failures :: "action list" where
  "five_failures =
     [CallConnect,
      Deliver (EvClose 0 1006), Deliver (EvTimeout 0),
      Deliver (EvClose 1 1006), Deliver (EvTimeout 1),
      Deliver (EvClose 2 1006), Deliver (EvTimeout 2),
      Deliver (EvClose 3 1006), Deliver (EvTimeout 3),
      Deliver (EvClose 4 1006), Deliver (EvTimeout 4)]"

definition budget_spent :: LiveChannel where
  "budget_spent =
     \<lparr>connectionStatus = Connecting, lastMessage = None, ws = Some 5,
      reconnectTimeoutRef = Some 4, reconnectAttempts = 5,
      sockets = [\<lparr>readyState = CLOSED, sent = [], closeCalls = []\<rparr>,
                 \<lparr>readyState = CLOSED, sent = [], closeCalls = []\<rparr>,
                 \<lparr>readyState = CLOSED, sent = [], closeCalls = []\<rparr>,
                 \<lparr>readyState = CLOSED, sent = [], closeCalls = []\<rparr>,
                 \<lparr>readyState = CLOSED, sent = [], closeCalls = []\<rparr>,
                 \<lparr>readyState = CONNECTING, sent = [], closeCalls = []\<rparr>],
      timeouts = [\<lparr>delay = 1000, pending = False\<rparr>, \<lparr>delay = 2000, pending = False\<rparr>,
                  \<lparr>delay = 4000, pending = False\<rparr>, \<lparr>delay = 8000, pending = False\<rparr>,
                  \<lparr>delay = 16000, pending = False\<rparr>]\<rparr>"

text \<open>
  After \<open>reconnect\<close> on an established connection the new socket opens, and then the old
  socket, which \<open>reconnect\<close> closed without a code, reports its closure (code 1005: no
  status received).
\<close>

definition stale_close :: "action list" where
  "stale_close =
     [CallConnect, Deliver (EvOpen 0), CallReconnect, Deliver (EvOpen 1),
      Deliver (EvClose 0 1005)]"

definition stale_close_state :: LiveChannel where
  "stale_close_state =
     \<lparr>connectionStatus = Disconnected, lastMessage = None, ws = Some 1,
      reconnectTimeoutRef = Some 0, reconnectAttempts = 0,
      sockets = [\<lparr>readyState = CLOSED, sent = [], closeCalls = [None]\<rparr>,
                 \<lparr>readyState = OPEN, sent = [], closeCalls = []\<rparr>],
      timeouts = [\<lparr>delay = 1000, pending = True\<rparr>]\<rparr>"

text \<open>
  The hook is disposed while its first socket is still connecting. The attempt is
  abandoned, which the transport reports as an abnormal closure (code 1006, whatever code
  was passed to \<open>close\<close>), and the timer that the close handler schedules fires.
\<close>

definition disposed_while_connecting :: "action list" where
  "disposed_while_connecting =
     [CallConnect, CallCleanup, Deliver (EvClose 0 1006), Deliver (EvTimeout 0)]"

definition retry_after_cleanup :: LiveChannel where
  "retry_after_cleanup =
     \<lparr>connectionStatus = Connecting, lastMessage = None, ws = Some 1,
      reconnectTimeoutRef = Some 0, reconnectAttempts = 1,
      sockets = [\<lparr>readyState = CLOSED, sent = [], closeCalls = [Some 1000]\<rparr>,
                 \<lparr>readyState = CONNECTING, sent = [], closeCalls = []\<rparr>],
      timeouts = [\<lparr>delay = 1000, pending = False\<rparr>]\<rparr>"

section \<open>ResultShapeAnalyzer: the chart selector (components/ResultsVisualizer.tsx)\<close>

subsection \<open>Values, numbers and objects\<close>

text \<open>
  A number is either \<open>NaN\<close>, an infinity, or a finite value. Finite values are exact
  rationals: the rounding of binary floating point is not modelled, and the two zeros are
  one value (the code never tells them apart: it compares with \<open>Set\<close> membership, tests
  truthiness and converts to strings).
\<close>

datatype number = NaN | PosInfinity | NegInfinity | Finite rat

text \<open>
  The value of a cell: a scalar of a parsed JSON document, \<open>undefined\<close> for a property
  that is not there, and \<open>JInherited k\<close> for the member \<open>k\<close> that every object inherits
  from \<open>Object.prototype\<close> (a function, or the prototype itself), which is what a read of
  a missing property of that name returns.
\<close>

datatype jsvalue = JUndefined | JNull | JBoolean bool | JNumber number | JString string
  | JInherited string

text \<open>An object is the list of its own properties in insertion order.\<close>

type_synonym object = "(string \<times> jsvalue) list"

definition Object_prototype_names :: "string list" where
  "Object_prototype_names =
     [''constructor'', ''__defineGetter__'', ''__defineSetter__'', ''hasOwnProperty'',
      ''__lookupGetter__'', ''__lookupSetter__'', ''isPrototypeOf'', ''propertyIsEnumerable'',
      ''toString'', ''valueOf'', ''__proto__'', ''toLocaleString'']"

text \<open>\<open>row[col]\<close>.\<close>

definition get_prop :: "object \<Rightarrow> string \<Rightarrow> jsvalue" where
  "get_prop obj k =
     (case map_of obj k of
        Some v \<Rightarrow> v
      | None \<Rightarrow> if k \<in> set Object_prototype_names then JInherited k else JUndefined)"

subsection \<open>Strings to numbers\<close>

text \<open>
  \<open>Number(val)\<close> on a string follows the grammar of numeric string literals: white space
  is trimmed, the empty string is 0, then an optionally signed decimal literal or
  \<open>Infinity\<close>, or an unsigned hexadecimal, octal or binary integer; anything else is
  \<open>NaN\<close>. Characters are the code units 0 to 255.
\<close>

definition isWhiteSpace :: "char \<Rightarrow> bool" where
  "isWhiteSpace c = (c \<in> set [CHR 0x09, CHR 0x0A, CHR 0x0B, CHR 0x0C, CHR 0x0D, CHR 0x20, CHR 0xA0])"

definition trim :: "string \<Rightarrow> string" where
  "trim s = rev (dropWhile isWhiteSpace (rev (dropWhile isWhiteSpace s)))"

fun index_of :: "'a \<Rightarrow> 'a list \<Rightarrow> nat option" where
  "index_of x [] = None"
| "index_of x (y # ys) = (if x = y then Some 0 else map_option Suc (index_of x ys))"

definition digit_of :: "char \<Rightarrow> int option" where
  "digit_of c =
     (case index_of c ''0123456789abcdef'' of
        Some d \<Rightarrow> Some (int d)
      | None \<Rightarrow> map_option (\<lambda>d. int d + 10) (index_of c ''ABCDEF''))"

definition isDigit :: "char \<Rightarrow> bool" where
  "isDigit c = (c \<in> set ''0123456789'')"

fun digits_acc :: "int \<Rightarrow> int \<Rightarrow> string \<Rightarrow> int option" where
  "digits_acc b acc [] = Some acc"
| "digits_acc b acc (c # cs) =
     (case digit_of c of
        None \<Rightarrow> None
      | Some d \<Rightarrow> if d < b then digits_acc b (b * acc + d) cs else None)"

text \<open>One digit or more in the radix \<open>b\<close>.\<close>

definition radix_literal :: "int \<Rightarrow> string \<Rightarrow> int option" where
  "radix_literal b s = (if s = [] then None else digits_acc b 0 s)"

definition decimal_digits :: "string \<Rightarrow> int" where
  "decimal_digits s = (case digits_acc 10 0 s of Some n \<Rightarrow> n | None \<Rightarrow> 0)"

definition nondecimal :: "string \<Rightarrow> int option" where
  "nondecimal s =
     (case s of
        z # x # ds \<Rightarrow>
          if z \<noteq> CHR ''0'' then None
          else if x = CHR ''x'' \<or> x = CHR ''X'' then radix_literal 16 ds
          else if x = CHR ''o'' \<or> x = CHR ''O'' then radix_literal 8 ds
          else if x = CHR ''b'' \<or> x = CHR ''B'' then radix_literal 2 ds
          else None
      | _ \<Rightarrow> None)"

text \<open>The exponent part of a decimal literal: nothing, or \<open>e\<close> and a signed integer.\<close>

definition exponent_part :: "string \<Rightarrow> int option" where
  "exponent_part r =
     (case r of
        [] \<Rightarrow> Some 0
      | c # r' \<Rightarrow>
          if c = CHR ''e'' \<or> c = CHR ''E'' then
            (case r' of
               [] \<Rightarrow> None
             | d # r'' \<Rightarrow>
                 if d = CHR ''+'' then radix_literal 10 r''
                 else if d = CHR ''-'' then map_option uminus (radix_literal 10 r'')
                 else radix_literal 10 r')
          else None)"

definition decimal_value :: "string \<Rightarrow> string \<Rightarrow> int \<Rightarrow> rat" where
  "decimal_value ip fp e =
     (of_int (decimal_digits ip * 10 ^ length fp + decimal_digits fp) / 10 ^ length fp)
       * (if 0 \<le> e then 10 ^ nat e else 1 / 10 ^ nat (- e))"

definition StrUnsignedDecimalLiteral :: "string \<Rightarrow> number" where
  "StrUnsignedDecimalLiteral s =
     (if s = ''Infinity'' then PosInfinity
      else
        let ip = takeWhile isDigit s;
            r1 = dropWhile isDigit s;
            dot = (r1 \<noteq> [] \<and> hd r1 = CHR ''.'');
            fp = (if dot then takeWhile isDigit (tl r1) else []);
            r2 = (if dot then dropWhile isDigit (tl r1) else r1)
        in if ip = [] \<and> fp = [] then NaN
           else (case exponent_part r2 of
                   None \<Rightarrow> NaN
                 | Some e \<Rightarrow> Finite (decimal_value ip fp e)))"

fun negate :: "number \<Rightarrow> number" where
  "negate NaN = NaN"
| "negate PosInfinity = NegInfinity"
| "negate NegInfinity = PosInfinity"
| "negate (Finite q) = Finite (- q)"

definition StringToNumber :: "string \<Rightarrow> number" where
  "StringToNumber str =
     (case trim str of
        [] \<Rightarrow> Finite 0
      | c # r \<Rightarrow>
          if c = CHR ''+'' then StrUnsignedDecimalLiteral r
          else if c = CHR ''-'' then negate (StrUnsignedDecimalLiteral r)
          else (case nondecimal (c # r) of
                  Some n \<Rightarrow> Finite (of_int n)
                | None \<Rightarrow> StrUnsignedDecimalLiteral (c # r)))"

text \<open>\<open>Number(val)\<close>.\<close>

fun Number :: "jsvalue \<Rightarrow> number" where
  "Number JUndefined = NaN"
| "Number JNull = Finite 0"
| "Number (JBoolean b) = (if b then Finite 1 else Finite 0)"
| "Number (JNumber n) = n"
| "Number (JString s) = StringToNumber s"
| "Number (JInherited k) = NaN"

definition isNaN :: "number \<Rightarrow> bool" where
  "isNaN n = (n = NaN)"

definition isFinite :: "number \<Rightarrow> bool" where
  "isFinite n = (case n of Finite q \<Rightarrow> True | _ \<Rightarrow> False)"

text \<open>\<open>n || 0\<close> for a number \<open>n\<close>: \<open>NaN\<close> and zero are falsy.\<close>

definition or_zero :: "number \<Rightarrow> number" where
  "or_zero n = (if n = NaN \<or> n = Finite 0 then Finite 0 else n)"

fun truthy :: "jsvalue \<Rightarrow> bool" where
  "truthy JUndefined = False"
| "truthy JNull = False"
| "truthy (JBoolean b) = b"
| "truthy (JNumber n) = (n \<noteq> NaN \<and> n \<noteq> Finite 0)"
| "truthy (JString s) = (s \<noteq> [])"
| "truthy (JInherited k) = True"

fun add :: "number \<Rightarrow> number \<Rightarrow> number" where
  "add (Finite a) (Finite b) = Finite (a + b)"
| "add NaN y = NaN"
| "add x NaN = NaN"
| "add PosInfinity NegInfinity = NaN"
| "add NegInfinity PosInfinity = NaN"
| "add PosInfinity y = PosInfinity"
| "add NegInfinity y = NegInfinity"
| "add x PosInfinity = PosInfinity"
| "add x NegInfinity = NegInfinity"

text \<open>Division, with a zero divisor taken as the positive zero (a sum that starts at 0).\<close>

fun divide :: "number \<Rightarrow> number \<Rightarrow> number" where
  "divide (Finite a) (Finite b) =
     (if b \<noteq> 0 then Finite (a / b)
      else if a = 0 then NaN else if 0 < a then PosInfinity else NegInfinity)"
| "divide NaN y = NaN"
| "divide x NaN = NaN"
| "divide (Finite a) y = Finite 0"
| "divide x (Finite b) = (if 0 \<le> b then x else negate x)"
| "divide x y = NaN"

subsection \<open>Property keys and the order of own properties\<close>

text \<open>The decimal digits of an integer that is not negative.\<close>

function decimal_string :: "int \<Rightarrow> string" where
  "decimal_string n =
     (if n < 10 then [''0123456789'' ! nat n]
      else decimal_string (n div 10) @ [''0123456789'' ! nat (n mod 10)])"
  by pat_completeness auto
termination
  by (relation "measure (\<lambda>n. nat n)") auto

declare decimal_string.simps [simp del]

text \<open>
  The string a value becomes when it is used as a property key (\<open>acc[key]\<close>). A finite
  number has its plain decimal digits when it is an integer below \<open>2^53\<close> in magnitude;
  the digits of other finite numbers depend on their binary representation, and the text
  of an inherited function depends on the engine: both are \<open>None\<close> here.
\<close>

fun ToString :: "jsvalue \<Rightarrow> string option" where
  "ToString JUndefined = Some ''undefined''"
| "ToString JNull = Some ''null''"
| "ToString (JBoolean b) = Some (if b then ''true'' else ''false'')"
| "ToString (JString s) = Some s"
| "ToString (JNumber NaN) = Some ''NaN''"
| "ToString (JNumber PosInfinity) = Some ''Infinity''"
| "ToString (JNumber NegInfinity) = Some ''-Infinity''"
| "ToString (JNumber (Finite q)) =
     (if of_int \<lfloor>q\<rfloor> = q \<and> \<bar>q\<bar> < 2 ^ 53
      then Some ((if q < 0 then ''-'' else []) @ decimal_string \<lfloor>\<bar>q\<bar>\<rfloor>)
      else None)"
| "ToString (JInherited k) = None"

text \<open>
  A key is an array index when it is the canonical decimal form of an integer below
  \<open>2^32 - 1\<close>. The own properties of an object are enumerated with the array indices
  first, in ascending order, then the other keys in insertion order.
\<close>

definition array_index :: "string \<Rightarrow> int option" where
  "array_index k =
     (if k \<noteq> [] \<and> list_all isDigit k \<and> (k = ''0'' \<or> hd k \<noteq> CHR ''0'')
         \<and> decimal_digits k < 4294967295
      then Some (decimal_digits k) else None)"

definition own_entries :: "(string \<times> 'a) list \<Rightarrow> (string \<times> 'a) list" where
  "own_entries obj =
     sort_key (\<lambda>p. case array_index (fst p) of Some i \<Rightarrow> i | None \<Rightarrow> 0)
       (filter (\<lambda>p. array_index (fst p) \<noteq> None) obj)
     @ filter (\<lambda>p. array_index (fst p) = None) obj"

definition Object_keys :: "(string \<times> 'a) list \<Rightarrow> string list" where
  "Object_keys obj = map fst (own_entries obj)"

definition Object_values :: "(string \<times> 'a) list \<Rightarrow> 'a list" where
  "Object_values obj = map snd (own_entries obj)"

subsection \<open>The analysis (lines 138 to 213)\<close>

text \<open>
  The result, with the type of the elements of \<open>chartData\<close> as a parameter: objects
  here, and elements that may be \<open>null\<close> further down.
\<close>

record 'r analysis =
  chartType :: string
  chartData :: "'r list option"
  numericColumns :: "string list"
  categoricalColumns :: "string list"

text \<open>
  The series of a chart is a list of objects, as the rows are. \<open>chartData\<close> is \<open>None\<close>
  where the bar or the pie series depends on a property key that \<open>ToString\<close> does not
  give, or on a key that names a member of \<open>Object.prototype\<close>: there \<open>acc[key]\<close> reads
  the inherited member of the accumulator, not a group, and what the reducer then does
  (it writes to that member, which can also throw) is outside the model.
\<close>

definition column_values :: "object list \<Rightarrow> string \<Rightarrow> jsvalue list" where
  "column_values rows col = map (\<lambda>row. get_prop row col) rows"

definition is_numeric_column :: "object list \<Rightarrow> string \<Rightarrow> bool" where
  "is_numeric_column data col =
     (let sampleValues = column_values (take 10 data) col
      in list_all (\<lambda>val. val \<noteq> JNull \<and> val \<noteq> JUndefined \<and> \<not> isNaN (Number val)) sampleValues)"

definition is_categorical_column :: "object list \<Rightarrow> string \<Rightarrow> bool" where
  "is_categorical_column data col =
     (let uniqueValues_size = length (remdups (column_values data col))
      in (of_nat uniqueValues_size :: rat) \<le> min 20 (of_nat (length data) * (8 / 10)) \<and> 1 < uniqueValues_size)"

text \<open>The bar branch: the reducer of lines 166 to 174 and the averaging of lines 176 to 179.\<close>

definition bar_reducer ::
  "string \<Rightarrow> string \<Rightarrow> (string \<times> object) list option \<Rightarrow> object \<Rightarrow> (string \<times> object) list option" where
  "bar_reducer categoryCol numericCol acc row =
     (case acc of
        None \<Rightarrow> None
      | Some a \<Rightarrow>
          let key = get_prop row categoryCol in
          (case ToString key of
             None \<Rightarrow> None
           | Some k \<Rightarrow>
               if k \<in> set Object_prototype_names then None
               else
                 let a1 = (if map_of a k = None
                           then a @ [(k, AList.update ''count'' (JNumber (Finite 0))
                                          (AList.update numericCol (JNumber (Finite 0))
                                            [(''name'', key)]))]
                           else a)
                 in (case map_of a1 k of
                       None \<Rightarrow> None
                     | Some item \<Rightarrow>
                         (case get_prop item numericCol of
                            JNumber subtotal \<Rightarrow>
                              let item1 = AList.update numericCol
                                    (JNumber (add subtotal (or_zero (Number (get_prop row numericCol))))) item
                              in (case get_prop item1 ''count'' of
                                    JNumber c \<Rightarrow>
                                      Some (AList.update k
                                        (AList.update ''count'' (JNumber (add c (Finite 1))) item1) a1)
                                  | _ \<Rightarrow> None)
                          | _ \<Rightarrow> None))))"

definition bar_average :: "string \<Rightarrow> object \<Rightarrow> object option" where
  "bar_average numericCol item =
     (case (get_prop item numericCol, get_prop item ''count'') of
        (JNumber subtotal, JNumber c) \<Rightarrow>
          Some (AList.update numericCol (JNumber (divide subtotal c)) (own_entries item))
      | _ \<Rightarrow> None)"

fun sequence :: "'a option list \<Rightarrow> 'a list option" where
  "sequence [] = Some []"
| "sequence (x # xs) =
     (case x of None \<Rightarrow> None
      | Some y \<Rightarrow> (case sequence xs of None \<Rightarrow> None | Some ys \<Rightarrow> Some (y # ys)))"

definition bar_chart :: "string \<Rightarrow> string \<Rightarrow> object list \<Rightarrow> object list option" where
  "bar_chart categoryCol numericCol data =
     (case foldl (bar_reducer categoryCol numericCol) (Some []) data of
        None \<Rightarrow> None
      | Some aggregated \<Rightarrow> sequence (map (bar_average numericCol) (Object_values aggregated)))"

definition scatter_chart :: "string \<Rightarrow> string \<Rightarrow> object list \<Rightarrow> object list" where
  "scatter_chart xCol yCol data =
     map (\<lambda>(index, row).
            [(''x'', JNumber (or_zero (Number (get_prop row xCol)))),
             (''y'', JNumber (or_zero (Number (get_prop row yCol)))),
             (''id'', JNumber (Finite (of_nat index)))])
         (enumerate 0 data)"

text \<open>The pie branch: the counting reducer of lines 192 to 196.\<close>

definition pie_reducer ::
  "string \<Rightarrow> (string \<times> nat) list option \<Rightarrow> object \<Rightarrow> (string \<times> nat) list option" where
  "pie_reducer categoryCol acc row =
     (case acc of
        None \<Rightarrow> None
      | Some a \<Rightarrow>
          (case ToString (get_prop row categoryCol) of
             None \<Rightarrow> None
           | Some k \<Rightarrow>
               if k \<in> set Object_prototype_names then None
               else Some (AList.update k ((case map_of a k of None \<Rightarrow> 0 | Some c \<Rightarrow> c) + 1) a)))"

definition pie_chart :: "string \<Rightarrow> object list \<Rightarrow> object list option" where
  "pie_chart categoryCol data =
     (case foldl (pie_reducer categoryCol) (Some []) data of
        None \<Rightarrow> None
      | Some counts \<Rightarrow>
          Some (map (\<lambda>(name, v). [(''name'', JString name), (''value'', JNumber (Finite (of_nat v)))])
                    (own_entries counts)))"

definition line_chart :: "string \<Rightarrow> string \<Rightarrow> object list \<Rightarrow> object list" where
  "line_chart numericCol firstCol data =
     map (\<lambda>(index, row).
            [(''index'', JNumber (Finite (of_nat index))),
             (''value'', JNumber (or_zero (Number (get_prop row numericCol)))),
             (''name'', if truthy (get_prop row firstCol) then get_prop row firstCol
                        else JString (''Row '' @ decimal_string (int index + 1)))])
         (enumerate 0 data)"

text \<open>
  \<open>analysisResult\<close> on rows that are objects: the argument is \<open>None\<close> for a \<open>data\<close>
  prop that is \<open>null\<close> or \<open>undefined\<close>. The reads that throw when an element of \<open>data\<close>
  is not an object are added below, in \<open>analysisResult_any\<close>.
\<close>

definition analysisResult :: "object list option \<Rightarrow> object analysis" where
  "analysisResult d =
     (case d of
        None \<Rightarrow> \<lparr>chartType = ''none'', chartData = Some [], numericColumns = [], categoricalColumns = []\<rparr>
      | Some [] \<Rightarrow> \<lparr>chartType = ''none'', chartData = Some [], numericColumns = [], categoricalColumns = []\<rparr>
      | Some (firstRow # rest) \<Rightarrow>
          let data = firstRow # rest;
              columns = Object_keys firstRow;
              numericCols = filter (is_numeric_column data) columns;
              categoricalCols = filter (is_categorical_column data) columns
          in
            if 1 \<le> length numericCols \<and> 1 \<le> length categoricalCols then
              \<lparr>chartType = ''bar'',
               chartData = bar_chart (hd categoricalCols) (hd numericCols) data,
               numericColumns = numericCols, categoricalColumns = categoricalCols\<rparr>
            else if 2 \<le> length numericCols then
              \<lparr>chartType = ''scatter'',
               chartData = Some (scatter_chart (numericCols ! 0) (numericCols ! 1) data),
               numericColumns = numericCols, categoricalColumns = categoricalCols\<rparr>
            else if length categoricalCols = 1 \<and> length data \<le> 20 then
              \<lparr>chartType = ''pie'',
               chartData = pie_chart (hd categoricalCols) data,
               numericColumns = numericCols, categoricalColumns = categoricalCols\<rparr>
            else if 1 \<le> length numericCols \<and> 5 < length data then
              \<lparr>chartType = ''line'',
               chartData = Some (line_chart (hd numericCols) (hd columns) data),
               numericColumns = numericCols, categoricalColumns = categoricalCols\<rparr>
            else
              \<lparr>chartType = ''table'', chartData = Some data,
               numericColumns = numericCols, categoricalColumns = categoricalCols\<rparr>)"

subsection \<open>Elements of the data that are not objects\<close>

text \<open>
  The prop is typed \<open>any[]\<close>: where a row should be, a parsed JSON array may hold
  \<open>null\<close>. \<open>Object.keys(null)\<close> and \<open>null[col]\<close> throw a \<open>TypeError\<close>. (Elements that are
  numbers, strings or arrays are not modelled.)
\<close>

datatype row = NullRow | ObjectRow object









subsection \<open>Result sets the properties speak about\<close>

text \<open>
  The rows of the spec's example; rows with a categorical column and two numeric columns;
  a single row with a text cell; a single row whose text cell reads \<open>Infinity\<close>; two rows
  with a column of numeric strings and a column that is not numeric; data whose only
  element is \<open>null\<close>, and data with \<open>null\<close> after a row.
\<close>

definition payroll :: "object list" where
  "payroll =
     [[(''dept'', JString ''Eng''), (''sal'', JNumber (Finite 100))],
      [(''dept'', JString ''Eng''), (''sal'', JNumber (Finite 200))],
      [(''dept'', JString ''Sales''), (''sal'', JNumber (Finite 300))]]"



definition infinite_text :: "object list" where
  "infinite_text = [[(''a'', JString ''Infinity'')]]"

definition mixed_text :: "object list" where
  "mixed_text = [[(''a'', JString ''12''), (''b'', JString ''x'')],
                 [(''a'', JString '' 1.5e3''), (''b'', JNull)]]"



section \<open>Properties of the LiveChannel\<close>

text \<open>
  C8. Calling \<open>connect\<close> while the underlying connection is open returns the hook's state
  as it was: no socket is constructed, and the status, the retry count and the socket
  handle are unchanged.
\<close>

theorem connect_open_noop:
  assumes "ws_is_open s"
  shows "connect s = s"
  using assms by (simp add: connect_def)

lemma established_eq:
  "established =
     \<lparr>connectionStatus = Connected, lastMessage = None, ws = Some 0,
      reconnectTimeoutRef = None, reconnectAttempts = 0,
      sockets = [\<lparr>readyState = OPEN, sent = [], closeCalls = []\<rparr>],
      timeouts = []\<rparr>"
  by (simp add: established_def initial_def connect_def ws_is_open_def new_WebSocket_def
      set_readyState_def onopen_def)

theorem connect_open_noop_witness:
  "steps [CallConnect, Deliver (EvOpen 0)] initial = Some established
   \<and> ws_is_open established
   \<and> connect established = established
   \<and> length (sockets (connect established)) = 1"
proof -
  have r: "steps [CallConnect, Deliver (EvOpen 0)] initial = Some established"
    by (simp add: established_def) (simp add: initial_def connect_def ws_is_open_def
        new_WebSocket_def)
  have o: "ws_is_open established"
    by (simp add: ws_is_open_def established_eq)
  have l: "length (sockets established) = 1"
    by (simp add: established_eq)
  from connect_open_noop [OF o] r o l show ?thesis
    by simp
qed

text \<open>
  C9. The guard of \<open>connect\<close> only looks for an open socket. When the current socket exists
  and is not open, \<open>connect\<close> constructs a second socket and stores its handle over the
  old one; the old socket is left as it was, it is not closed, and when it was still
  connecting it can still open and run the handlers.
\<close>

theorem connect_not_open_second_socket:
  assumes "ws s = Some w" and "w < length (sockets s)"
    and "readyState (sockets s ! w) \<noteq> OPEN"
  shows "connect s \<noteq> s
    \<and> sockets (connect s) = sockets s @ [new_WebSocket]
    \<and> ws (connect s) = Some (length (sockets s))
    \<and> ws (connect s) \<noteq> Some w
    \<and> sockets (connect s) ! w = sockets s ! w
    \<and> enabled (connect s) (EvOpen w) = (readyState (sockets s ! w) = CONNECTING)
    \<and> connectionStatus (connect s) = Connecting"
proof -
  from assms have no: "\<not> ws_is_open s"
    by (simp add: ws_is_open_def)
  then have c: "connect s = s\<lparr>connectionStatus := Connecting, ws := Some (length (sockets s)),
      sockets := sockets s @ [new_WebSocket]\<rparr>"
    by (simp add: connect_def)
  have "length (sockets (connect s)) \<noteq> length (sockets s)"
    by (simp add: c)
  then have "connect s \<noteq> s"
    by auto
  with assms show ?thesis
    by (simp add: c nth_append)
qed

theorem connect_not_open_second_socket_witness:
  "ws (connect initial) = Some 0
   \<and> readyState (sockets (connect initial) ! 0) = CONNECTING
   \<and> sockets (connect (connect initial)) = [new_WebSocket, new_WebSocket]
   \<and> ws (connect (connect initial)) = Some 1
   \<and> enabled (connect (connect initial)) (EvOpen 0)"
proof -
  have a: "ws (connect initial) = Some 0"
    by (simp add: connect_def initial_def ws_is_open_def)
  have b: "0 < length (sockets (connect initial))"
    by (simp add: connect_def initial_def ws_is_open_def)
  have c: "readyState (sockets (connect initial) ! 0) = CONNECTING"
    by (simp add: connect_def initial_def ws_is_open_def new_WebSocket_def)
  then have c': "readyState (sockets (connect initial) ! 0) \<noteq> OPEN"
    by simp
  have d: "sockets (connect initial) = [new_WebSocket]"
    by (simp add: connect_def initial_def ws_is_open_def)
  from connect_not_open_second_socket [OF a b c'] a c d show ?thesis
    by simp
qed

lemma lastMessage_connect: "lastMessage (connect s) = lastMessage s"
  by (simp add: connect_def)

lemma lastMessage_clearTimeout: "lastMessage (clearTimeout t s) = lastMessage s"
  by (simp add: clearTimeout_def)

lemma lastMessage_socket_close: "lastMessage (socket_close w c s) = lastMessage s"
  by (simp add: socket_close_def)

lemma lastMessage_set_readyState: "lastMessage (set_readyState w r s) = lastMessage s"
  by (simp add: set_readyState_def)

lemma lastMessage_onclose: "lastMessage (onclose code s) = lastMessage s"
  by (simp add: onclose_def Let_def)

lemma lastMessage_sendMessage: "lastMessage (sendMessage m s) = lastMessage s"
  by (simp add: sendMessage_def socket_send_def split: option.splits)

lemma lastMessage_reconnect: "lastMessage (reconnect s) = lastMessage s"
  by (simp add: reconnect_def Let_def lastMessage_connect lastMessage_clearTimeout
      lastMessage_socket_close split: option.splits)

lemma lastMessage_cleanup: "lastMessage (cleanup s) = lastMessage s"
  by (simp add: cleanup_def Let_def lastMessage_clearTimeout lastMessage_socket_close
      split: option.splits)

lemma lastMessage_timeout_callback: "lastMessage (timeout_callback s) = lastMessage s"
  by (simp add: timeout_callback_def lastMessage_connect)

lemma lastMessage_fire:
  "\<not> delivers_message (Deliver e) \<Longrightarrow> lastMessage (fire e s) = lastMessage s"
  by (cases e)
    (simp_all add: onopen_def onerror_def lastMessage_onclose lastMessage_timeout_callback
      lastMessage_set_readyState lastMessage_clearTimeout)

lemma lastMessage_step:
  "\<not> delivers_message a \<Longrightarrow> step a s = Some s' \<Longrightarrow> lastMessage s' = lastMessage s"
proof (cases a)
  case (Deliver e)
  assume "\<not> delivers_message a" and "step a s = Some s'"
  with Deliver show ?thesis
    by (auto simp add: lastMessage_fire split: if_splits)
qed (auto simp add: lastMessage_connect lastMessage_sendMessage lastMessage_reconnect
    lastMessage_cleanup)

lemma lastMessage_steps:
  "list_all (\<lambda>a. \<not> delivers_message a) as \<Longrightarrow> steps as s = Some s'
   \<Longrightarrow> lastMessage s' = lastMessage s"
proof (induction as arbitrary: s)
  case Nil
  then show ?case by simp
next
  case (Cons a as)
  from Cons.prems(2) obtain s1 where s1: "step a s = Some s1" and r: "steps as s1 = Some s'"
    by (auto split: option.splits)
  from Cons.prems(1) have na: "\<not> delivers_message a"
    and nas: "list_all (\<lambda>a. \<not> delivers_message a) as"
    by simp_all
  from Cons.IH [OF nas r] lastMessage_step [OF na s1] show ?case
    by simp
qed

text \<open>
  C10. \<open>lastMessage\<close> is \<open>null\<close> initially and only the message handler writes it:
  \<open>connect\<close>, the open, close and error handlers, the timer callback, \<open>sendMessage\<close>,
  \<open>reconnect\<close> and the cleanup leave it as it is, and so does every sequence of calls and
  events in which no message is delivered. A message received before a disconnect is
  still there after the reconnection.
\<close>

theorem lastMessage_only_by_message:
  "lastMessage initial = None
   \<and> lastMessage (onmessage m s) = Some m
   \<and> lastMessage (connect s) = lastMessage s
   \<and> lastMessage (onopen s) = lastMessage s
   \<and> lastMessage (onclose code s) = lastMessage s
   \<and> lastMessage (onerror s) = lastMessage s
   \<and> lastMessage (timeout_callback s) = lastMessage s
   \<and> lastMessage (sendMessage frame s) = lastMessage s
   \<and> lastMessage (reconnect s) = lastMessage s
   \<and> lastMessage (cleanup s) = lastMessage s
   \<and> (\<forall>as s'. list_all (\<lambda>a. \<not> delivers_message a) as \<and> steps as s = Some s'
         \<longrightarrow> lastMessage s' = lastMessage s)"
  by (auto simp add: initial_def onmessage_def onopen_def onerror_def lastMessage_connect
      lastMessage_onclose lastMessage_timeout_callback lastMessage_sendMessage
      lastMessage_reconnect lastMessage_cleanup intro: lastMessage_steps)

theorem lastMessage_only_by_message_witness:
  "lastMessage after_first_message = Some ''m''
   \<and> map_option lastMessage
        (steps [Deliver (EvClose 0 1006), Deliver (EvTimeout 0), Deliver (EvOpen 1)]
           after_first_message) = Some (Some ''m'')
   \<and> map_option connectionStatus
        (steps [Deliver (EvClose 0 1006), Deliver (EvTimeout 0), Deliver (EvOpen 1)]
           after_first_message) = Some Connected"
proof -
  let ?as = "[Deliver (EvClose 0 1006), Deliver (EvTimeout 0), Deliver (EvOpen 1)]"
  have c: "map_option connectionStatus (steps ?as after_first_message) = Some Connected"
    by (simp add: after_first_message_def established_eq connect_def ws_is_open_def
        new_WebSocket_def onopen_def onmessage_def onclose_def set_readyState_def
        maxReconnectAttempts_def backoff_def timeout_callback_def clearTimeout_def Let_def)
  then obtain s' where s': "steps ?as after_first_message = Some s'"
    by auto
  have n: "list_all (\<lambda>a. \<not> delivers_message a) ?as"
    by simp
  have m: "lastMessage after_first_message = Some ''m''"
    by (simp add: after_first_message_def onmessage_def)
  from lastMessage_only_by_message [where s = after_first_message] n s'
  have "lastMessage s' = lastMessage after_first_message"
    by blast
  with s' m c show ?thesis
    by simp
qed

text \<open>
  C5, as the code has it. When a socket reports a closure with a code other than 1000 and
  the retry count \<open>n\<close> is below 5, the close handler schedules exactly one timer, with the
  delay \<open>min (1000 * 2^n) 30000\<close> milliseconds, and constructs no socket itself. The
  closure leaves the retry count at \<open>n\<close>: the timer's callback increments it when the
  timer fires, and then makes the one connection attempt (\<open>connect\<close>, which constructs a
  socket unless the current one is open). When \<open>n\<close> is 5 or more the handler only sets
  the status to \<open>Disconnected\<close>: no timer is scheduled.
\<close>

theorem onclose_schedules_backoff:
  "(code \<noteq> 1000 \<and> reconnectAttempts s < 5 \<longrightarrow>
      timeouts (onclose code s)
        = timeouts s @ [\<lparr>delay = min (1000 * 2 ^ reconnectAttempts s) 30000, pending = True\<rparr>]
      \<and> reconnectTimeoutRef (onclose code s) = Some (length (timeouts s))
      \<and> sockets (onclose code s) = sockets s
      \<and> connectionStatus (onclose code s) = Disconnected
      \<and> reconnectAttempts (onclose code s) = reconnectAttempts s
      \<and> enabled (onclose code s) (EvTimeout (length (timeouts s)))
      \<and> reconnectAttempts (fire (EvTimeout (length (timeouts s))) (onclose code s))
          = reconnectAttempts s + 1
      \<and> sockets (fire (EvTimeout (length (timeouts s))) (onclose code s))
          = (if ws_is_open s then sockets s else sockets s @ [new_WebSocket]))
   \<and> (5 \<le> reconnectAttempts s \<longrightarrow>
        onclose code s = s\<lparr>connectionStatus := Disconnected\<rparr>
        \<and> timeouts (onclose code s) = timeouts s
        \<and> sockets (onclose code s) = sockets s
        \<and> connectionStatus (onclose code s) = Disconnected)"
proof -
  have big: "5 \<le> reconnectAttempts s \<Longrightarrow> onclose code s = s\<lparr>connectionStatus := Disconnected\<rparr>"
    by (simp add: onclose_def maxReconnectAttempts_def Let_def)
  have small: "onclose code s =
      s\<lparr>connectionStatus := Disconnected, reconnectTimeoutRef := Some (length (timeouts s)),
        timeouts := timeouts s @ [\<lparr>delay = min (1000 * 2 ^ reconnectAttempts s) 30000, pending = True\<rparr>]\<rparr>"
    if "code \<noteq> 1000" "reconnectAttempts s < 5"
    using that by (simp add: onclose_def maxReconnectAttempts_def backoff_def Let_def)
  have op: "ws_is_open (t\<lparr>reconnectAttempts := n\<rparr>) = ws_is_open t" for t :: LiveChannel and n
    by (simp add: ws_is_open_def split: option.splits)
  have op2: "ws_is_open (clearTimeout k t) = ws_is_open t" for t k
    by (simp add: ws_is_open_def clearTimeout_def split: option.splits)
  have op3: "ws_is_open (s\<lparr>connectionStatus := Disconnected, reconnectTimeoutRef := r, timeouts := ts\<rparr>)
      = ws_is_open s" for r ts
    by (simp add: ws_is_open_def split: option.splits)
  show ?thesis
  proof (intro conjI impI)
    assume a: "code \<noteq> 1000 \<and> reconnectAttempts s < 5"
    then have eq: "onclose code s =
      s\<lparr>connectionStatus := Disconnected, reconnectTimeoutRef := Some (length (timeouts s)),
        timeouts := timeouts s @ [\<lparr>delay = min (1000 * 2 ^ reconnectAttempts s) 30000, pending = True\<rparr>]\<rparr>"
      using small by simp
    show "timeouts (onclose code s)
        = timeouts s @ [\<lparr>delay = min (1000 * 2 ^ reconnectAttempts s) 30000, pending = True\<rparr>]"
      by (simp add: eq)
    show "reconnectTimeoutRef (onclose code s) = Some (length (timeouts s))"
      by (simp add: eq)
    show "sockets (onclose code s) = sockets s"
      by (simp add: eq)
    show "connectionStatus (onclose code s) = Disconnected"
      by (simp add: eq)
    show "reconnectAttempts (onclose code s) = reconnectAttempts s"
      by (simp add: eq)
    show "enabled (onclose code s) (EvTimeout (length (timeouts s)))"
      by (simp add: eq)
    have f: "fire (EvTimeout (length (timeouts s))) (onclose code s)
          = connect ((clearTimeout (length (timeouts s)) (onclose code s))
                       \<lparr>reconnectAttempts := reconnectAttempts s + 1\<rparr>)"
      by (simp add: timeout_callback_def eq clearTimeout_def)
    show "reconnectAttempts (fire (EvTimeout (length (timeouts s))) (onclose code s))
          = reconnectAttempts s + 1"
      unfolding f by (simp add: connect_def clearTimeout_def eq)
    show "sockets (fire (EvTimeout (length (timeouts s))) (onclose code s))
          = (if ws_is_open s then sockets s else sockets s @ [new_WebSocket])"
      unfolding f by (simp add: connect_def op op2) (simp add: eq op3 clearTimeout_def)
  next
    assume b: "5 \<le> reconnectAttempts s"
    show "onclose code s = s\<lparr>connectionStatus := Disconnected\<rparr>"
      using b by (rule big)
    show "timeouts (onclose code s) = timeouts s"
      by (simp add: big [OF b])
    show "sockets (onclose code s) = sockets s"
      by (simp add: big [OF b])
    show "connectionStatus (onclose code s) = Disconnected"
      by (simp add: big [OF b])
  qed
qed

lemma five_failures_budget_spent: "steps five_failures initial = Some budget_spent"
  by (simp add: five_failures_def budget_spent_def initial_def connect_def ws_is_open_def
      new_WebSocket_def set_readyState_def onclose_def maxReconnectAttempts_def backoff_def
      timeout_callback_def clearTimeout_def Let_def)

theorem onclose_schedules_backoff_witness:
  "steps five_failures initial = Some budget_spent
   \<and> map delay (timeouts budget_spent) = [1000, 2000, 4000, 8000, 16000]
   \<and> reconnectAttempts budget_spent = 5
   \<and> enabled budget_spent (EvClose 5 1006)
   \<and> timeouts (fire (EvClose 5 1006) budget_spent) = timeouts budget_spent
   \<and> connectionStatus (fire (EvClose 5 1006) budget_spent) = Disconnected
   \<and> reconnectAttempts (connect initial) = 0
   \<and> timeouts (fire (EvClose 0 1006) (connect initial)) = [\<lparr>delay = 1000, pending = True\<rparr>]
   \<and> reconnectAttempts (fire (EvClose 0 1006) (connect initial)) = 0
   \<and> reconnectAttempts (fire (EvTimeout 0) (fire (EvClose 0 1006) (connect initial))) = 1
   \<and> length (sockets (fire (EvTimeout 0) (fire (EvClose 0 1006) (connect initial)))) = 2"
proof -
  define s0 where "s0 = set_readyState 0 CLOSED (connect initial)"
  define s5 where "s5 = set_readyState 5 CLOSED budget_spent"
  have f0: "fire (EvClose 0 1006) (connect initial) = onclose 1006 s0"
    and f5: "fire (EvClose 5 1006) budget_spent = onclose 1006 s5"
    by (simp_all add: s0_def s5_def)
  have a: "reconnectAttempts s0 = 0" "timeouts s0 = []" "length (sockets s0) = 1"
    "\<not> ws_is_open s0" "reconnectAttempts (connect initial) = 0"
    by (simp_all add: s0_def initial_def connect_def set_readyState_def ws_is_open_def
        new_WebSocket_def)
  have b: "reconnectAttempts s5 = 5" "timeouts s5 = timeouts budget_spent"
    by (simp_all add: s5_def set_readyState_def budget_spent_def)
  have c: "map delay (timeouts budget_spent) = [1000, 2000, 4000, 8000, 16000]"
    "reconnectAttempts budget_spent = 5" "enabled budget_spent (EvClose 5 1006)"
    by (simp_all add: budget_spent_def)
  from onclose_schedules_backoff [of 1006 s0] a
  have w0: "timeouts (onclose 1006 s0) = [\<lparr>delay = 1000, pending = True\<rparr>]
      \<and> reconnectAttempts (onclose 1006 s0) = 0
      \<and> reconnectAttempts (fire (EvTimeout 0) (onclose 1006 s0)) = 1
      \<and> length (sockets (fire (EvTimeout 0) (onclose 1006 s0))) = 2"
    by (simp del: fire.simps)
  from onclose_schedules_backoff [of 1006 s5] b
  have w5: "timeouts (onclose 1006 s5) = timeouts budget_spent
      \<and> connectionStatus (onclose 1006 s5) = Disconnected"
    by simp
  from w0 w5 a(5) c five_failures_budget_spent show ?thesis
    unfolding f0 f5 by (simp del: fire.simps)
qed

lemma backing_off_eq:
  "backing_off =
     \<lparr>connectionStatus = Disconnected, lastMessage = None, ws = Some 0,
      reconnectTimeoutRef = Some 0, reconnectAttempts = 0,
      sockets = [\<lparr>readyState = CLOSED, sent = [], closeCalls = []\<rparr>],
      timeouts = [\<lparr>delay = 1000, pending = True\<rparr>]\<rparr>"
  by (simp add: backing_off_def initial_def connect_def ws_is_open_def new_WebSocket_def
      set_readyState_def onclose_def maxReconnectAttempts_def backoff_def Let_def)

lemma closed_then_disposed_eq:
  "closed_then_disposed =
     \<lparr>connectionStatus = Disconnected, lastMessage = None, ws = Some 0,
      reconnectTimeoutRef = Some 0, reconnectAttempts = 0,
      sockets = [\<lparr>readyState = CLOSED, sent = [], closeCalls = [Some 1000]\<rparr>],
      timeouts = [\<lparr>delay = 1000, pending = False\<rparr>]\<rparr>"
  by (simp add: closed_then_disposed_def backing_off_eq cleanup_def socket_close_def
      clearTimeout_def)

text \<open>
  C5 as stated fails on the retry count. The first socket reports an abnormal closure
  with the retry count at 0: the one timer is scheduled, with the delay 1000, and the
  retry count is still 0, not 1. When the hook is then disposed the timer is cleared, it
  can no longer fire, and the retry count has never been incremented.
\<close>

theorem onclose_no_increment_counterexample:
  "reconnectAttempts (connect initial) = 0
   \<and> steps [CallConnect, Deliver (EvClose 0 1006)] initial = Some backing_off
   \<and> timeouts backing_off = [\<lparr>delay = 1000, pending = True\<rparr>]
   \<and> reconnectAttempts backing_off = 0
   \<and> steps [CallConnect, Deliver (EvClose 0 1006), CallCleanup] initial
       = Some closed_then_disposed
   \<and> reconnectAttempts closed_then_disposed = 0
   \<and> \<not> enabled closed_then_disposed (EvTimeout 0)"
proof -
  have a: "steps [CallConnect, Deliver (EvClose 0 1006)] initial = Some backing_off"
    by (simp add: backing_off_def) (simp add: initial_def connect_def ws_is_open_def
        new_WebSocket_def)
  have b: "steps [CallConnect, Deliver (EvClose 0 1006), CallCleanup] initial
       = Some closed_then_disposed"
    by (simp add: closed_then_disposed_def backing_off_def)
      (simp add: initial_def connect_def ws_is_open_def new_WebSocket_def)
  have c: "reconnectAttempts (connect initial) = 0"
    by (simp add: initial_def connect_def ws_is_open_def)
  from a b c show ?thesis
    by (simp add: backing_off_eq closed_then_disposed_eq)
qed

text \<open>
  C6, as the code has it. The guard of \<open>sendMessage\<close> reads the ready state of the current
  socket, not \<open>connectionStatus\<close>: whenever there is no socket, or the socket is not open,
  the call returns the state unchanged, sockets included, so nothing is queued or
  transmitted.
\<close>

theorem sendMessage_not_open_noop:
  assumes "\<not> ws_is_open s"
  shows "sendMessage message s = s"
  using assms by (simp add: sendMessage_def split: option.splits)

theorem sendMessage_not_open_noop_witness:
  "\<not> ws_is_open (connect initial)
   \<and> connectionStatus (connect initial) = Connecting
   \<and> sendMessage ''q'' (connect initial) = connect initial
   \<and> sent (sockets (sendMessage ''q'' (connect initial)) ! 0) = []"
proof -
  have a: "\<not> ws_is_open (connect initial)"
    by (simp add: connect_def initial_def ws_is_open_def new_WebSocket_def)
  have b: "connectionStatus (connect initial) = Connecting"
    "sent (sockets (connect initial) ! 0) = []"
    by (simp_all add: connect_def initial_def ws_is_open_def new_WebSocket_def)
  from sendMessage_not_open_noop [OF a, of "''q''"] a b show ?thesis
    by simp
qed

text \<open>
  C6 as stated fails for the status. After the calls and events of \<open>stale_close\<close> the
  status is \<open>Disconnected\<close>, set by the close handler of the replaced socket, while the
  current socket is open; \<open>sendMessage\<close> transmits the message on it.
\<close>

theorem sendMessage_status_counterexample:
  "steps stale_close initial = Some stale_close_state
   \<and> connectionStatus stale_close_state = Disconnected
   \<and> sendMessage ''q'' stale_close_state \<noteq> stale_close_state
   \<and> sent (sockets (sendMessage ''q'' stale_close_state) ! 1) = [''q'']"
proof -
  have b: "steps stale_close initial = Some stale_close_state"
    by (simp add: stale_close_def stale_close_state_def initial_def connect_def ws_is_open_def
      new_WebSocket_def onopen_def set_readyState_def reconnect_def socket_close_def
      onclose_def maxReconnectAttempts_def backoff_def Let_def)
  have c: "sent (sockets (sendMessage ''q'' stale_close_state) ! 1) = [''q'']"
    by (simp add: stale_close_state_def sendMessage_def ws_is_open_def socket_send_def)
  have d: "sent (sockets stale_close_state ! 1) = []"
    by (simp add: stale_close_state_def)
  from c d have e: "sendMessage ''q'' stale_close_state \<noteq> stale_close_state"
    by auto
  from b c e show ?thesis
    by (simp add: stale_close_state_def)
qed

text \<open>
  C7. The cleanup clears the timer held in \<open>reconnectTimeoutRef\<close> and calls
  \<open>close(1000)\<close> on the current socket, so that the close handler, which retries only
  "if it wasn't a manual close" (line 38), schedules nothing. The code misses the socket
  that is still connecting. Disposed then, the hook calls \<open>close(1000)\<close> on it; the
  transport reports the abandoned attempt with the code 1006; the close handler, which is
  still attached, schedules a retry; and when that timer fires a second socket is
  constructed: a further automatic connection attempt after the disposal.
\<close>

theorem cleanup_while_connecting_retries:
  "steps [CallConnect, CallCleanup] initial = Some (cleanup (connect initial))
   \<and> closeCalls (sockets (cleanup (connect initial)) ! 0) = [Some 1000]
   \<and> length (sockets (cleanup (connect initial))) = 1
   \<and> steps disposed_while_connecting initial = Some retry_after_cleanup
   \<and> length (sockets retry_after_cleanup) = 2
   \<and> connectionStatus retry_after_cleanup = Connecting"
  by (simp add: disposed_while_connecting_def retry_after_cleanup_def initial_def connect_def
      ws_is_open_def new_WebSocket_def cleanup_def socket_close_def set_readyState_def
      onclose_def maxReconnectAttempts_def backoff_def timeout_callback_def clearTimeout_def
      Let_def)

section \<open>Properties of the ResultShapeAnalyzer\<close>

lemma analysis_numericColumns:
  "numericColumns (analysisResult (Some (row # rows)))
     = filter (is_numeric_column (row # rows)) (Object_keys row)"
  by (simp add: analysisResult_def Let_def)





text \<open>
  C2, as the code has it. For the rows of the example the kind is \<open>bar\<close> and the series has
  one point for each department, in first-seen order: \<open>Eng\<close>, then \<open>Sales\<close>. A point
  holds the group key under \<open>name\<close>, the mean of the first numeric column under that
  column's own name (here \<open>sal\<close>: 150 and 300), and the group's number of rows under
  \<open>count\<close> (2 and 1).
\<close>

theorem bar_series_payroll:
  "analysisResult (Some payroll) =
     \<lparr>chartType = ''bar'',
      chartData = Some
        [[(''name'', JString ''Eng''), (''sal'', JNumber (Finite 150)), (''count'', JNumber (Finite 2))],
         [(''name'', JString ''Sales''), (''sal'', JNumber (Finite 300)), (''count'', JNumber (Finite 1))]],
      numericColumns = [''sal''], categoricalColumns = [''dept'']\<rparr>"
  by code_simp

theorem bar_series_payroll_witness:
  "chartType (analysisResult (Some payroll)) = ''bar''
   \<and> map_option length (chartData (analysisResult (Some payroll))) = Some 2"
  using bar_series_payroll by simp

text \<open>
  C2 as stated fails on the shape of a point: the series is not the list of the pairs
  \<open>{name, value}\<close>.
\<close>

theorem bar_series_payroll_counterexample:
  "chartType (analysisResult (Some payroll)) = ''bar''
   \<and> chartData (analysisResult (Some payroll)) \<noteq> Some
        [[(''name'', JString ''Eng''), (''value'', JNumber (Finite 150))],
         [(''name'', JString ''Sales''), (''value'', JNumber (Finite 300))]]"
  by code_simp










text \<open>
  C4, as the code has it. For every result set that is not empty, a column is classified
  numeric if and only if it is a key of the first row and each of its values in the first
  10 rows is neither \<open>null\<close> nor \<open>undefined\<close> and does not coerce to \<open>NaN\<close>. A value that
  coerces to an infinity passes the test.
\<close>

theorem numeric_classification:
  assumes "data \<noteq> []"
  shows "col \<in> set (numericColumns (analysisResult (Some data))) \<longleftrightarrow>
     col \<in> set (Object_keys (hd data))
     \<and> (\<forall>i < min 10 (length data).
           get_prop (data ! i) col \<noteq> JNull \<and> get_prop (data ! i) col \<noteq> JUndefined
           \<and> \<not> isNaN (Number (get_prop (data ! i) col)))"
proof -
  from assms obtain row rows where d: "data = row # rows"
    by (cases data) auto
  have "is_numeric_column data col \<longleftrightarrow>
     (\<forall>i < min 10 (length data).
           get_prop (data ! i) col \<noteq> JNull \<and> get_prop (data ! i) col \<noteq> JUndefined
           \<and> \<not> isNaN (Number (get_prop (data ! i) col)))"
    by (simp add: is_numeric_column_def column_values_def list_all_length min.commute)
  then show ?thesis
    unfolding d analysis_numericColumns by (simp add: d)
qed

theorem numeric_classification_witness:
  "numericColumns (analysisResult (Some mixed_text)) = [''a'']
   \<and> Number (get_prop (mixed_text ! 0) ''a'') = Finite 12
   \<and> Number (get_prop (mixed_text ! 1) ''a'') = Finite 1500
   \<and> isNaN (Number (get_prop (mixed_text ! 0) ''b''))"
proof -
  have ne: "mixed_text \<noteq> []"
    by (simp add: mixed_text_def)
  have n: "numericColumns (analysisResult (Some mixed_text)) = [''a'']"
    by code_simp
  have v: "Number (get_prop (mixed_text ! 0) ''a'') = Finite 12"
    "Number (get_prop (mixed_text ! 1) ''a'') = Finite 1500"
    "isNaN (Number (get_prop (mixed_text ! 0) ''b''))"
    by code_simp+
  from numeric_classification [OF ne, of "''a''"] n v show ?thesis
    by simp
qed

text \<open>
  C4 as stated fails on finiteness: the text \<open>Infinity\<close> coerces to an infinite number, and
  its column is classified numeric.
\<close>

theorem numeric_not_finite_counterexample:
  "infinite_text \<noteq> []
   \<and> ''a'' \<in> set (numericColumns (analysisResult (Some infinite_text)))
   \<and> get_prop (infinite_text ! 0) ''a'' = JString ''Infinity''
   \<and> Number (JString ''Infinity'') = PosInfinity
   \<and> \<not> isFinite (Number (get_prop (infinite_text ! 0) ''a''))"
  by code_simp

end
